theory Spec2Isabelle
  imports Main "HOL-Library.Sublist" "HOL-Library.Word"
begin

section \<open>Byte sequences\<close>

text \<open>
  A Go \<open>[]byte\<close> and a Go \<open>string\<close> are both sequences of bytes: a \<^typ>\<open>char\<close> is one
  byte. Where the source tells a nil slice from a non-nil one, the value is a
  \<open>bytes option\<close> and \<open>None\<close> is nil.
\<close>

type_synonym bytes = string

abbreviation CR :: char where "CR \<equiv> CHR 0x0D"
abbreviation LF :: char where "LF \<equiv> CHR 0x0A"
abbreviation CRLF :: bytes where "CRLF \<equiv> [CR, LF]"

text \<open>
  \<open>bytes.Index(s, sep)\<close>: the offset of the first occurrence of \<open>sep\<close> in \<open>s\<close>,
  or \<open>-1\<close> when there is none.
\<close>

fun bytes_Index :: "bytes \<Rightarrow> bytes \<Rightarrow> int" where
  "bytes_Index [] sep = (if sep = [] then 0 else -1)"
| "bytes_Index (x # xs) sep =
     (if prefix sep (x # xs) then 0
      else (let r = bytes_Index xs sep in if r < 0 then -1 else r + 1))"

text \<open>
  The slice expression \<open>s[lo:hi]\<close>, for \<open>lo \<le> hi \<le> len(s)\<close>. Every slice
  expression of the functions below is guarded by the source so that these bounds hold.
\<close>

definition slice :: "bytes \<Rightarrow> nat \<Rightarrow> nat \<Rightarrow> bytes" where
  "slice s lo hi = take (hi - lo) (drop lo s)"

section \<open>The correlation caches\<close>

text \<open>
  The three caches are instances of an external time-bounded key-value store with
  \<open>Get(key)\<close> and \<open>Set(key, value, ttlSeconds)\<close>. A cache is observed at the instant of
  a call: \<open>entries\<close> holds the live bindings, each with the time-to-live it was written
  with. \<open>Set\<close> can be refused by the backend (for instance an oversized entry);
  \<open>rejects\<close> is the backend's refusal condition.
\<close>

record cache =
  entries :: "bytes \<rightharpoonup> bytes \<times> nat"
  rejects :: "bytes \<Rightarrow> bytes \<Rightarrow> bool"

datatype cache_error = ErrNotFound | ErrRefused

definition cache_Get :: "cache \<Rightarrow> bytes \<Rightarrow> cache_error + bytes" where
  "cache_Get c k = (case entries c k of None \<Rightarrow> Inl ErrNotFound | Some (v, ttl) \<Rightarrow> Inr v)"

definition cache_Set :: "cache \<Rightarrow> bytes \<Rightarrow> bytes \<Rightarrow> nat \<Rightarrow> cache \<times> cache_error option" where
  "cache_Set c k v ttl =
     (if rejects c k v then (c, Some ErrRefused)
      else (c\<lparr>entries := (entries c)(k \<mapsto> (v, ttl))\<rparr>, None))"

text \<open>
  The decoder owns the three caches. \<open>ops\<close> records, in order, every cache call the
  decoder has made, so that "no lookup" and "no write" can be stated.
\<close>

datatype cache_id = SDP | RTCP | SIPNG

datatype cache_op = OpGet cache_id bytes | OpSet cache_id bytes bytes nat

record Decoder =
  Host :: string
  SDPCache :: cache
  RTCPCache :: cache
  SIPCache :: cache
  ops :: "cache_op list"


definition SDPCache_Set :: "Decoder \<Rightarrow> bytes \<Rightarrow> bytes \<Rightarrow> nat \<Rightarrow> Decoder \<times> cache_error option" where
  "SDPCache_Set d k v ttl =
     (let (c, err) = cache_Set (SDPCache d) k v ttl
      in (d\<lparr>SDPCache := c, ops := ops d @ [OpSet SDP k v ttl]\<rparr>, err))"



definition SIPCache_Get :: "Decoder \<Rightarrow> bytes \<Rightarrow> Decoder \<times> (cache_error + bytes)" where
  "SIPCache_Get d k = (d\<lparr>ops := ops d @ [OpGet SIPNG k]\<rparr>, cache_Get (SIPCache d) k)"

definition SIPCache_Set :: "Decoder \<Rightarrow> bytes \<Rightarrow> bytes \<Rightarrow> nat \<Rightarrow> Decoder \<times> cache_error option" where
  "SIPCache_Set d k v ttl =
     (let (c, err) = cache_Set (SIPCache d) k v ttl
      in (d\<lparr>SIPCache := c, ops := ops d @ [OpSet SIPNG k v ttl]\<rparr>, err))"

section \<open>cacheSDPIPPort\<close>

text \<open>
  The connection address: the bytes of \<open>restIP = payload[posSDPIP:]\<close> from offset
  \<open>len("c=IN IP") + 2\<close> to the first CRLF, which must be at offset 16 or later.
\<close>

definition sdpIP :: "bytes \<Rightarrow> int \<Rightarrow> bytes option" where
  "sdpIP payload posSDPIP =
     (let restIP = drop (nat posSDPIP) payload;
          posRestIP = bytes_Index restIP CRLF
      in if posRestIP \<ge> 16 then Some (slice restIP (length ''c=IN IP'' + 2) (nat posRestIP))
         else None)"

text \<open>
  \<open>ipPort.Bytes()[lastNum] = byte(uint32(ipPort.Bytes()[lastNum]) + 1)\<close>: the last byte
  of the buffer plus one, modulo 256. The buffer holds at least the address here.
\<close>

definition incLast :: "bytes \<Rightarrow> bytes" where
  "incLast b = b[length b - 1 := char_of ((of_char (b ! (length b - 1)) :: nat) + 1)]"

text \<open>
  The port, appended to the address in \<open>ipPort\<close>: the value of the \<open>a=rtcp:\<close> attribute
  when the payload has one at a positive offset, else the \<open>m=audio\<close> port with its last
  byte incremented.
\<close>

definition sdpPort :: "bytes \<Rightarrow> int \<Rightarrow> bytes \<Rightarrow> bytes option" where
  "sdpPort payload posSDPPort ipPort =
     (let posRTCPPort = bytes_Index payload ''a=rtcp:''
      in if posRTCPPort > 0 then
           (let restRTCPPort = drop (nat posRTCPPort) payload;
                posRestRTCPPort = bytes_Index restRTCPPort CRLF
            in if posRestRTCPPort \<ge> 11
               then Some (ipPort @ slice restRTCPPort (length ''a=rtcp:'') (nat posRestRTCPPort))
               else None)
         else
           (let restPort = drop (nat posSDPPort) payload;
                posRestPort = bytes_Index restPort '' RTP''
            in if posRestPort \<ge> 12
               then Some (incLast (ipPort @ slice restPort (length ''m=audio '') (nat posRestPort)))
               else None))"

text \<open>
  The Call-ID: the first of the three header forms whose marker is found at a positive
  offset decides; a marker found with its value too short aborts, the later forms are
  not tried.
\<close>

definition sipCallID :: "bytes \<Rightarrow> bytes option" where
  "sipCallID payload =
     (if bytes_Index payload ''Call-ID: '' > 0 then
        (let restCallID = drop (nat (bytes_Index payload ''Call-ID: '')) payload;
             posRestCallID = bytes_Index restCallID CRLF
         in if posRestCallID \<ge> 10
            then Some (slice restCallID (length ''Call-ID: '') (nat posRestCallID))
            else None)
      else if bytes_Index payload ''Call-ID:'' > 0 then
        (let restCallID = drop (nat (bytes_Index payload ''Call-ID:'')) payload;
             posRestCallID = bytes_Index restCallID CRLF
         in if posRestCallID \<ge> 9
            then Some (slice restCallID (length ''Call-ID:'') (nat posRestCallID))
            else None)
      else if bytes_Index payload ''i: '' > 0 then
        (let restID = drop (nat (bytes_Index payload ''i: '')) payload;
             posRestID = bytes_Index restID CRLF
         in if posRestID \<ge> 4
            then Some (slice restID (length ''i: '') (nat posRestID))
            else None)
      else None)"

text \<open>
  \<open>cacheSDPIPPort\<close> itself: the three extractions in the source's order, each failure
  returning at once, then the one write to the SDP cache, whose error is only logged.
\<close>

definition cacheSDPIPPort :: "Decoder \<Rightarrow> bytes \<Rightarrow> Decoder" where
  "cacheSDPIPPort d payload =
     (let posSDPIP = bytes_Index payload ''c=IN IP'';
          posSDPPort = bytes_Index payload ''m=audio ''
      in if posSDPIP > 0 \<and> posSDPPort > 0 then
           (case sdpIP payload posSDPIP of
              None \<Rightarrow> d
            | Some ip \<Rightarrow>
                (case sdpPort payload posSDPPort ip of
                   None \<Rightarrow> d
                 | Some ipPort \<Rightarrow>
                     (case sipCallID payload of
                        None \<Rightarrow> d
                      | Some callID \<Rightarrow> fst (SDPCache_Set d ipPort callID 120))))
         else d)"

section \<open>correlateLOG\<close>

text \<open>
  A correlation result is the triple \<open>([]byte, []byte, byte)\<close>: payload, correlation
  identifier and record type; \<open>(nil, nil, 0)\<close> is the no-match triple.
\<close>

type_synonym correlation = "bytes option \<times> bytes option \<times> 8 word"

definition noMatch :: correlation where
  "noMatch = (None, None, 0)"




section \<open>The SIP decoder\<close>

text \<open>
  \<open>strings.ToUpper\<close> and \<open>strings.ToLower\<close> on ASCII text: the letters change case,
  every other byte stays. (On text outside ASCII the library maps Unicode letters; the
  method and version names compared against are ASCII.)
\<close>

definition upperByte :: "char \<Rightarrow> char" where
  "upperByte c =
     (let n = (of_char c :: nat) in if 97 \<le> n \<and> n \<le> 122 then char_of (n - 32) else c)"

definition lowerByte :: "char \<Rightarrow> char" where
  "lowerByte c =
     (let n = (of_char c :: nat) in if 65 \<le> n \<and> n \<le> 90 then char_of (n + 32) else c)"

definition strings_ToUpper :: "string \<Rightarrow> string" where
  "strings_ToUpper s = map upperByte s"

definition strings_ToLower :: "string \<Rightarrow> string" where
  "strings_ToLower s = map lowerByte s"

definition strings_HasPrefix :: "string \<Rightarrow> string \<Rightarrow> bool" where
  "strings_HasPrefix s pre = prefix pre s"

text \<open>
  \<open>strings.SplitN(s, sep, n)\<close> for a non-empty separator and \<open>n \<ge> 0\<close>: at most
  \<open>n\<close> substrings, cut at the first \<open>n - 1\<close> occurrences of \<open>sep\<close>; the last
  substring is the unsplit remainder.
\<close>

fun strings_SplitN :: "string \<Rightarrow> string \<Rightarrow> nat \<Rightarrow> string list" where
  "strings_SplitN s sep 0 = []"
| "strings_SplitN s sep (Suc n) =
     (if n = 0 then [s]
      else (let m = bytes_Index s sep
            in if m < 0 then [s]
               else take (nat m) s # strings_SplitN (drop (nat m + length sep) s) sep n))"

text \<open>\<open>bytes.Trim(s, cutset)\<close> for an ASCII cutset: leading and trailing bytes of the cutset go.\<close>

definition bytes_Trim :: "bytes \<Rightarrow> bytes \<Rightarrow> bytes" where
  "bytes_Trim s cutset =
     rev (dropWhile (\<lambda>c. c \<in> set cutset) (rev (dropWhile (\<lambda>c. c \<in> set cutset) s)))"

text \<open>
  The errors of the decoder. The source builds them with \<open>fmt.Errorf\<close>:
  \<open>invalid first SIP line\<close> (the specification's MalformedFirstLine),
  \<open>invalid SIP version\<close>, \<open>invalid SIP method\<close>; \<open>AtoiError\<close> is the error of
  \<open>strconv.Atoi\<close>. Each carries the offending text.
\<close>

datatype sip_error =
    InvalidFirstSIPLine string
  | InvalidSIPVersion string
  | InvalidSIPMethod string
  | AtoiError string

type_synonym SIPVersion = "8 word"

definition SIPVersion1 :: SIPVersion where "SIPVersion1 = 1"
definition SIPVersion2 :: SIPVersion where "SIPVersion2 = 2"

definition SIPVersion_String :: "SIPVersion \<Rightarrow> string" where
  "SIPVersion_String sv =
     (if sv = SIPVersion1 then ''SIP/1.0''
      else if sv = SIPVersion2 then ''SIP/2.0''
      else ''SIP/2.0'')"

definition GetSIPVersion :: "string \<Rightarrow> SIPVersion \<times> sip_error option" where
  "GetSIPVersion version =
     (let u = strings_ToUpper version
      in if u = ''SIP/1.0'' then (SIPVersion1, None)
         else if u = ''SIP/2.0'' then (SIPVersion2, None)
         else (0, Some (InvalidSIPVersion version)))"

type_synonym SIPMethod = "16 word"

definition SIPMethodInvite :: SIPMethod where "SIPMethodInvite = 1"
definition SIPMethodAck :: SIPMethod where "SIPMethodAck = 2"
definition SIPMethodBye :: SIPMethod where "SIPMethodBye = 3"
definition SIPMethodCancel :: SIPMethod where "SIPMethodCancel = 4"
definition SIPMethodOptions :: SIPMethod where "SIPMethodOptions = 5"
definition SIPMethodRegister :: SIPMethod where "SIPMethodRegister = 6"
definition SIPMethodPrack :: SIPMethod where "SIPMethodPrack = 7"
definition SIPMethodSubscribe :: SIPMethod where "SIPMethodSubscribe = 8"
definition SIPMethodNotify :: SIPMethod where "SIPMethodNotify = 9"
definition SIPMethodPublish :: SIPMethod where "SIPMethodPublish = 10"
definition SIPMethodInfo :: SIPMethod where "SIPMethodInfo = 11"
definition SIPMethodRefer :: SIPMethod where "SIPMethodRefer = 12"
definition SIPMethodMessage :: SIPMethod where "SIPMethodMessage = 13"
definition SIPMethodUpdate :: SIPMethod where "SIPMethodUpdate = 14"
definition SIPMethodPing :: SIPMethod where "SIPMethodPing = 15"

definition SIPMethod_String :: "SIPMethod \<Rightarrow> string" where
  "SIPMethod_String sm =
     (if sm = SIPMethodInvite then ''INVITE''
      else if sm = SIPMethodAck then ''ACK''
      else if sm = SIPMethodBye then ''BYE''
      else if sm = SIPMethodCancel then ''CANCEL''
      else if sm = SIPMethodOptions then ''OPTIONS''
      else if sm = SIPMethodRegister then ''REGISTER''
      else if sm = SIPMethodPrack then ''PRACK''
      else if sm = SIPMethodSubscribe then ''SUBSCRIBE''
      else if sm = SIPMethodNotify then ''NOTIFY''
      else if sm = SIPMethodPublish then ''PUBLISH''
      else if sm = SIPMethodInfo then ''INFO''
      else if sm = SIPMethodRefer then ''REFER''
      else if sm = SIPMethodMessage then ''MESSAGE''
      else if sm = SIPMethodUpdate then ''UPDATE''
      else if sm = SIPMethodPing then ''PING''
      else ''Unknown method'')"

definition GetSIPMethod :: "string \<Rightarrow> SIPMethod \<times> sip_error option" where
  "GetSIPMethod method =
     (let u = strings_ToUpper method
      in if u = ''INVITE'' then (SIPMethodInvite, None)
         else if u = ''ACK'' then (SIPMethodAck, None)
         else if u = ''BYE'' then (SIPMethodBye, None)
         else if u = ''CANCEL'' then (SIPMethodCancel, None)
         else if u = ''OPTIONS'' then (SIPMethodOptions, None)
         else if u = ''REGISTER'' then (SIPMethodRegister, None)
         else if u = ''PRACK'' then (SIPMethodPrack, None)
         else if u = ''SUBSCRIBE'' then (SIPMethodSubscribe, None)
         else if u = ''NOTIFY'' then (SIPMethodNotify, None)
         else if u = ''PUBLISH'' then (SIPMethodPublish, None)
         else if u = ''INFO'' then (SIPMethodInfo, None)
         else if u = ''REFER'' then (SIPMethodRefer, None)
         else if u = ''MESSAGE'' then (SIPMethodMessage, None)
         else if u = ''UPDATE'' then (SIPMethodUpdate, None)
         else if u = ''PING'' then (SIPMethodPing, None)
         else (0, Some (InvalidSIPMethod method)))"

text \<open>
  \<open>strconv.Atoi\<close>: an optional sign and one or more decimal digits, within the range of a
  64-bit \<open>int\<close>; anything else is an error, with the value 0 on a syntax error and the
  nearest bound on a range error.
\<close>

definition isDigit :: "char \<Rightarrow> bool" where
  "isDigit c = (48 \<le> (of_char c :: nat) \<and> (of_char c :: nat) \<le> 57)"

definition decimal :: "string \<Rightarrow> int" where
  "decimal ds = foldl (\<lambda>acc c. acc * 10 + (int (of_char c) - 48)) 0 ds"

definition strconv_Atoi :: "string \<Rightarrow> int \<times> sip_error option" where
  "strconv_Atoi s =
     (let neg = (s \<noteq> [] \<and> hd s = CHR ''-'');
          ds = (if s \<noteq> [] \<and> (hd s = CHR ''+'' \<or> hd s = CHR ''-'') then tl s else s)
      in if ds = [] \<or> \<not> list_all isDigit ds then (0, Some (AtoiError s))
         else (let v = (if neg then - decimal ds else decimal ds)
               in if v < - (2 ^ 63) then (- (2 ^ 63), Some (AtoiError s))
                  else if 2 ^ 63 - 1 < v then (2 ^ 63 - 1, Some (AtoiError s))
                  else (v, None)))"

text \<open>The SIP layer. \<open>sip_Payload\<close> is \<open>BaseLayer.Payload\<close>, the body; \<open>None\<close> is nil.\<close>

record SIP =
  sip_Payload :: "bytes option"
  Version :: SIPVersion
  Headers :: "string \<rightharpoonup> string list"
  Method :: SIPMethod
  IsResponse :: bool
  ResponseCode :: int
  ResponseStatus :: string

definition NewSIP :: SIP where
  "NewSIP = \<lparr>sip_Payload = None, Version = 0, Headers = Map.empty, Method = 0,
              IsResponse = False, ResponseCode = 0, ResponseStatus = []\<rparr>"

text \<open>
  \<open>ParseFirstLine\<close> works on the receiver in place and returns an error or nil: the model
  returns the receiver as it is left and the error. An assignment
  \<open>s.Version, err = GetSIPVersion(...)\<close> stores the value also when \<open>err\<close> is set.
\<close>

definition ParseFirstLine :: "SIP \<Rightarrow> bytes \<Rightarrow> SIP \<times> sip_error option" where
  "ParseFirstLine s firstLine =
     (let splits = strings_SplitN firstLine '' '' 3
      in if length splits < 3 then (s, Some (InvalidFirstSIPLine firstLine))
         else if strings_HasPrefix (splits ! 0) ''SIP'' then
           (let s1 = s\<lparr>IsResponse := True\<rparr>;
                (v, verr) = GetSIPVersion (splits ! 0);
                s2 = s1\<lparr>Version := v\<rparr>
            in if verr \<noteq> None then (s2, verr)
               else (let (code, cerr) = strconv_Atoi (splits ! 1);
                         s3 = s2\<lparr>ResponseCode := code\<rparr>
                     in if cerr \<noteq> None then (s3, cerr)
                        else (s3\<lparr>ResponseStatus := splits ! 2\<rparr>, None)))
         else
           (let (m, merr) = GetSIPMethod (splits ! 0);
                s1 = s\<lparr>Method := m\<rparr>
            in if merr \<noteq> None then (s1, merr)
               else (let (v, verr) = GetSIPVersion (splits ! 2);
                         s2 = s1\<lparr>Version := v\<rparr>
                     in if verr \<noteq> None then (s2, verr)
                        else (s2, None))))"

text \<open>
  \<open>buffer.ReadBytes('\n')\<close>: the bytes up to and including the first line feed, and the
  buffer that remains; \<open>None\<close> is \<open>io.EOF\<close>, when the buffer holds no line feed.
\<close>

definition ReadBytes :: "bytes \<Rightarrow> (bytes \<times> bytes) option" where
  "ReadBytes buffer =
     (if LF \<in> set buffer
      then Some (takeWhile (\<lambda>c. c \<noteq> LF) buffer @ [LF], tl (dropWhile (\<lambda>c. c \<noteq> LF) buffer))
      else None)"

text \<open>A header line: name and value are cut at the first colon; a line without one is dropped.\<close>

definition addHeader :: "SIP \<Rightarrow> bytes \<Rightarrow> SIP" where
  "addHeader s line =
     (let index = bytes_Index line '':''
      in if index \<ge> 0 then
           (let headerName = strings_ToLower (bytes_Trim (take (nat index) line) '' '');
                headerValue = bytes_Trim (drop (nat index + 1) line) '' ''
            in s\<lparr>Headers := (Headers s)(headerName \<mapsto>
                   (case Headers s headerName of None \<Rightarrow> [] | Some vs \<Rightarrow> vs) @ [headerValue])\<rparr>)
         else s)"

text \<open>The loop of \<open>DecodeFromBytes\<close>, on the receiver, the line count and the buffer.\<close>

function decodeLines :: "SIP \<Rightarrow> nat \<Rightarrow> bytes \<Rightarrow> SIP \<times> sip_error option" where
  "decodeLines s countLines buffer =
     (case ReadBytes buffer of
        None \<Rightarrow> (s, None)
      | Some (raw, rest) \<Rightarrow>
          (let line = bytes_Trim raw CRLF
           in if length line = 0 then (s\<lparr>sip_Payload := Some rest\<rparr>, None)
              else if countLines = 0 then
                (let (s1, err) = ParseFirstLine s line
                 in if err \<noteq> None then (s1, err) else decodeLines s1 (countLines + 1) rest)
              else decodeLines (addHeader s line) (countLines + 1) rest))"
  by pat_completeness auto
termination
proof -
  have shrink: "length (dropWhile (\<lambda>c. c \<noteq> LF) b) - Suc 0 < length b"
    if "LF \<in> set b" for b :: bytes
  proof -
    have "length (dropWhile (\<lambda>c. c \<noteq> LF) b) \<le> length b"
      by (rule length_dropWhile_le)
    moreover have "0 < length b"
      using that by (rule length_pos_if_in_set)
    ultimately show ?thesis by arith
  qed
  show ?thesis
    by (relation "measure (\<lambda>(s, n, buffer). length buffer)")
       (auto simp: ReadBytes_def shrink split: if_splits)
qed

definition DecodeFromBytes :: "SIP \<Rightarrow> bytes \<Rightarrow> SIP \<times> sip_error option" where
  "DecodeFromBytes s data = decodeLines s 0 (bytes_Trim data [LF])"

section \<open>correlateRTCP\<close>







section \<open>correlateNG\<close>

text \<open>
  What the NG decoder returns in its \<open>interface{}\<close>: byte strings, integers, lists and
  dictionaries. A dictionary is listed in the order the \<open>range\<close> loop visits it.
\<close>

datatype ng_value =
    NGBytes bytes
  | NGInt int
  | NGList "ng_value list"
  | NGDict "(string \<times> ng_value) list"

datatype panic = TypeAssertion | NilDereference | IndexOutOfRange

text \<open>
  The loop over the dictionary. \<open>rawMapValue.([]byte)\<close> is a type assertion without the
  second result: it panics on a value of another type.
\<close>

fun ngEntries ::
  "(ng_value \<Rightarrow> string + bytes) \<Rightarrow> bytes \<Rightarrow> Decoder \<Rightarrow> (string \<times> ng_value) list \<Rightarrow>
   panic + Decoder \<times> correlation" where
  "ngEntries json_Marshal cookie d [] = Inr (d, noMatch)"
| "ngEntries json_Marshal cookie d ((rawMapKey, rawMapValue) # rest) =
     (if rawMapKey = ''call-id'' then
        (case rawMapValue of
           NGBytes callid \<Rightarrow>
             (let (d1, err) = SIPCache_Set d cookie callid 10
              in if err \<noteq> None then Inr (d1, noMatch)
                 else ngEntries json_Marshal cookie d1 rest)
         | _ \<Rightarrow> Inl TypeAssertion)
      else if rawMapKey = ''SSRC'' then
        (case json_Marshal rawMapValue of
           Inl _ \<Rightarrow> Inr (d, noMatch)
         | Inr data \<Rightarrow>
             (let (d1, found) = SIPCache_Get d cookie
              in case found of
                   Inr corrID \<Rightarrow> Inr (d1, (Some data, Some corrID, 100))
                 | Inl _ \<Rightarrow> ngEntries json_Marshal cookie d1 rest))
      else ngEntries json_Marshal cookie d rest)"

text \<open>
  \<open>correlateNG\<close>. The NG decoder \<open>unmarshalNG\<close>, which returns the cookie and the decoded
  value or an error, and \<open>json.Marshal\<close> are parameters.
\<close>

definition correlateNG ::
  "(bytes \<Rightarrow> string + bytes \<times> ng_value) \<Rightarrow> (ng_value \<Rightarrow> string + bytes) \<Rightarrow>
   Decoder \<Rightarrow> bytes \<Rightarrow> panic + Decoder \<times> correlation" where
  "correlateNG unmarshalNG json_Marshal d payload =
     (case unmarshalNG payload of
        Inl _ \<Rightarrow> Inr (d, noMatch)
      | Inr (cookie, rawNG) \<Rightarrow>
          (case rawNG of
             NGDict rawTypes \<Rightarrow> ngEntries json_Marshal cookie d rawTypes
           | _ \<Rightarrow> Inr (d, noMatch)))"

section \<open>Process\<close>

text \<open>
  The frame as the packet library decodes it: the layers in order, and the payload of the
  application layer when there is one. Of each layer the fields \<open>Process\<close> reads.
\<close>

record IPv4 =
  Length :: "16 word"
  SrcIP :: bytes
  DstIP :: bytes

record UDP =
  udp_SrcPort :: "16 word"
  udp_DstPort :: "16 word"
  udp_Payload :: bytes

record TCP =
  tcp_SrcPort :: "16 word"
  tcp_DstPort :: "16 word"
  tcp_Payload :: bytes

datatype layer =
    LayerEthernet
  | LayerIPv4 IPv4
  | LayerUDP UDP
  | LayerTCP TCP
  | LayerOther bytes

record packet =
  Layers :: "layer list"
  ApplicationLayer :: "bytes option"

text \<open>\<open>packet.Layer(t)\<close>: the first layer of the type.\<close>

fun Layer_IPv4 :: "layer list \<Rightarrow> IPv4 option" where
  "Layer_IPv4 [] = None"
| "Layer_IPv4 (LayerIPv4 ip4 # ls) = Some ip4"
| "Layer_IPv4 (l # ls) = Layer_IPv4 ls"

fun Layer_UDP :: "layer list \<Rightarrow> UDP option" where
  "Layer_UDP [] = None"
| "Layer_UDP (LayerUDP udp # ls) = Some udp"
| "Layer_UDP (l # ls) = Layer_UDP ls"

fun Layer_TCP :: "layer list \<Rightarrow> TCP option" where
  "Layer_TCP [] = None"
| "Layer_TCP (LayerTCP tcp # ls) = Some tcp"
| "Layer_TCP (l # ls) = Layer_TCP ls"

record Config =
  HepFilter :: string
  Reasm :: bool

record CaptureInfo =
  Timestamp_Unix :: int
  Timestamp_Nanosecond :: int

text \<open>
  The normalized packet. \<open>Payload\<close> and \<open>SipHeader\<close> are nil (\<open>None\<close>) until they are
  assigned.
\<close>

record Packet =
  pkt_Host :: string
  Tsec :: "32 word"
  Tmsec :: "32 word"
  Srcip :: "32 word"
  Dstip :: "32 word"
  Sport :: "16 word"
  Dport :: "16 word"
  Payload :: "bytes option"
  SipHeader :: "(string \<rightharpoonup> string list) option"

definition BigEndian_Uint32 :: "bytes \<Rightarrow> 32 word" where
  "BigEndian_Uint32 b =
     word_of_nat (((of_char (b ! 0) * 256 + of_char (b ! 1)) * 256 + of_char (b ! 2)) * 256
                  + of_char (b ! 3))"

text \<open>\<open>ip2int\<close>; reading four bytes of a shorter slice panics.\<close>

definition ip2int :: "bytes \<Rightarrow> panic + 32 word" where
  "ip2int ip =
     (if length ip = 16 then Inr (BigEndian_Uint32 (slice ip 12 16))
      else if length ip < 4 then Inl IndexOutOfRange
      else Inr (BigEndian_Uint32 ip))"

text \<open>
  \<open>decodeSIP\<close> adds the SIP layer to the packet under construction only when
  \<open>DecodeFromBytes\<close> returns no error.
\<close>

definition decodeSIP :: "bytes \<Rightarrow> sip_error + SIP" where
  "decodeSIP data =
     (let (s, err) = DecodeFromBytes NewSIP data
      in case err of Some e \<Rightarrow> Inl e | None \<Rightarrow> Inr s)"

text \<open>
  The layers of \<open>gopacket.NewPacket(data, LayerTypeSIP, gopacket.NoCopy)\<close>: the SIP layer,
  or, when the decoder returned an error, the library's decode-failure layer.
\<close>

datatype sip_packet_layer = SIPLayer SIP | DecodeFailure sip_error

definition NewPacket_SIP :: "bytes \<Rightarrow> sip_packet_layer list" where
  "NewPacket_SIP data =
     (case decodeSIP data of Inl e \<Rightarrow> [DecodeFailure e] | Inr s \<Rightarrow> [SIPLayer s])"

text \<open>
  The tail shared by the UDP and TCP cases: \<open>p.Layers()[0].(*SIP)\<close>, with the headers and
  the return when it is a SIP layer; \<open>None\<close> is the \<open>break\<close> out of the \<open>switch\<close>.
\<close>

definition sipHeaders :: "Packet \<Rightarrow> bytes \<Rightarrow> panic + Packet option" where
  "sipHeaders pkt layerPayload =
     (case NewPacket_SIP layerPayload of
        [] \<Rightarrow> Inl IndexOutOfRange
      | SIPLayer sipLayer # _ \<Rightarrow> Inr (Some (pkt\<lparr>SipHeader := Some (Headers sipLayer)\<rparr>))
      | DecodeFailure _ # _ \<Rightarrow> Inr None)"

text \<open>
  The loop over the layers. \<open>defrag\<close> is the IPv4 defragmenter on its state \<open>df\<close>: it
  returns a packet or nil, and whether it returned an error. \<open>all\<close> are the layers of the
  frame, which \<open>packet.Layer\<close> searches. After a reassembly the source decodes the
  reassembled payload into the frame again, which appends layers: the loop, which
  ranges over the layers as they were, and \<open>packet.Layer\<close>, which finds the first layer
  of a type, do not see them.
\<close>

fun processLayers ::
  "('df \<Rightarrow> IPv4 \<Rightarrow> (IPv4 option \<times> bool) \<times> 'df) \<Rightarrow> Config \<Rightarrow> layer list \<Rightarrow> 'df \<Rightarrow> Packet \<Rightarrow>
   layer list \<Rightarrow> panic + Packet option" where
  "processLayers defrag cfg all df pkt [] = Inr None"
| "processLayers defrag cfg all df pkt (LayerIPv4 _ # rest) =
     (case Layer_IPv4 all of
        None \<Rightarrow> processLayers defrag cfg all df pkt rest
      | Some ip4 \<Rightarrow>
          (let ((frag, err), df1) =
                 (if Reasm cfg then defrag df ip4 else ((Some ip4, False), df))
           in if Reasm cfg \<and> \<not> err \<and> frag = None
              then processLayers defrag cfg all df1 pkt rest
              else if Reasm cfg \<and> frag = None then Inl NilDereference
              else (case ip2int (SrcIP ip4) of
                      Inl e \<Rightarrow> Inl e
                    | Inr src \<Rightarrow>
                        (case ip2int (DstIP ip4) of
                           Inl e \<Rightarrow> Inl e
                         | Inr dst \<Rightarrow>
                             processLayers defrag cfg all df1
                               (pkt\<lparr>Srcip := src, Dstip := dst\<rparr>) rest))))"
| "processLayers defrag cfg all df pkt (LayerUDP layer # rest) =
     (case Layer_UDP all of
        None \<Rightarrow> processLayers defrag cfg all df pkt rest
      | Some udp \<Rightarrow>
          (let pkt1 = pkt\<lparr>Sport := udp_SrcPort udp, Dport := udp_DstPort udp,
                           Payload := Some (udp_Payload udp)\<rparr>
           in case sipHeaders pkt1 (udp_Payload layer) of
                Inl e \<Rightarrow> Inl e
              | Inr (Some result) \<Rightarrow> Inr (Some result)
              | Inr None \<Rightarrow> processLayers defrag cfg all df pkt1 rest))"
| "processLayers defrag cfg all df pkt (LayerTCP layer # rest) =
     (case Layer_TCP all of
        None \<Rightarrow> processLayers defrag cfg all df pkt rest
      | Some tcp \<Rightarrow>
          (let pkt1 = pkt\<lparr>Sport := tcp_SrcPort tcp, Dport := tcp_DstPort tcp,
                           Payload := Some (tcp_Payload tcp)\<rparr>
           in case sipHeaders pkt1 (tcp_Payload layer) of
                Inl e \<Rightarrow> Inl e
              | Inr (Some result) \<Rightarrow> Inr (Some result)
              | Inr None \<Rightarrow> processLayers defrag cfg all df pkt1 rest))"
| "processLayers defrag cfg all df pkt (_ # rest) = processLayers defrag cfg all df pkt rest"

definition bytes_Contains :: "bytes \<Rightarrow> bytes \<Rightarrow> bool" where
  "bytes_Contains b subslice = (bytes_Index b subslice \<ge> 0)"

definition Process ::
  "('df \<Rightarrow> IPv4 \<Rightarrow> (IPv4 option \<times> bool) \<times> 'df) \<Rightarrow> Config \<Rightarrow> Decoder \<Rightarrow> 'df \<Rightarrow> packet \<Rightarrow>
   CaptureInfo \<Rightarrow> panic + Packet option" where
  "Process defrag cfg d df p ci =
     (let pkt = \<lparr>pkt_Host = Host d,
                 Tsec = word_of_int (Timestamp_Unix ci),
                 Tmsec = word_of_int (Timestamp_Nanosecond ci div 1000),
                 Srcip = 0, Dstip = 0, Sport = 0, Dport = 0,
                 Payload = None, SipHeader = None\<rparr>
      in if (case ApplicationLayer p of
               None \<Rightarrow> False
             | Some app \<Rightarrow> HepFilter cfg \<noteq> [] \<and> bytes_Contains app (HepFilter cfg))
         then Inr None
         else processLayers defrag cfg (Layers p) df pkt (Layers p))"

section \<open>Values used in the examples\<close>

text \<open>
  The specification's wording of the start-line rule speaks of whitespace-separated
  tokens: the maximal runs of bytes that are not white space. \<open>whitespaceTokens\<close>
  follows those words, for comparison with the split the source makes.
\<close>

definition isSpace :: "char \<Rightarrow> bool" where
  "isSpace c = (c \<in> {CHR '' '', CHR 0x09, LF, CHR 0x0B, CHR 0x0C, CR})"

fun tokensFrom :: "string \<Rightarrow> string \<Rightarrow> string list" where
  "tokensFrom tok [] = (if tok = [] then [] else [tok])"
| "tokensFrom tok (c # cs) =
     (if isSpace c then (if tok = [] then tokensFrom [] cs else tok # tokensFrom [] cs)
      else tokensFrom (tok @ [c]) cs)"

definition whitespaceTokens :: "string \<Rightarrow> string list" where
  "whitespaceTokens s = tokensFrom [] s"

text \<open>A cache that holds nothing and refuses nothing, and a decoder with three of them.\<close>

definition emptyCache :: cache where
  "emptyCache = \<lparr>entries = Map.empty, rejects = (\<lambda>k v. False)\<rparr>"

definition exampleDecoder :: Decoder where
  "exampleDecoder = \<lparr>Host = ''probe'', SDPCache = emptyCache, RTCPCache = emptyCache,
                      SIPCache = emptyCache, ops = []\<rparr>"

text \<open>The SDP body of the specification's example, and an INVITE that carries it.\<close>

definition sdpBody :: bytes where
  "sdpBody = ''c=IN IP4 10.0.0.5'' @ CRLF @ ''m=audio 30000 RTP/AVP 0'' @ CRLF"

definition inviteHeaders :: bytes where
  "inviteHeaders = ''INVITE sip:bob@example.com SIP/2.0'' @ CRLF @
                   ''Call-ID: a84b4c76e66710'' @ CRLF @ CRLF @ ''v=0'' @ CRLF"

definition invitePayload :: bytes where
  "invitePayload = inviteHeaders @ sdpBody"

text \<open>The same INVITE with a connection line too short for an address.\<close>

definition shortIPPayload :: bytes where
  "shortIPPayload = inviteHeaders @ ''c=IN IP4 1.1.1'' @ CRLF @ ''m=audio 30000 RTP/AVP 0'' @ CRLF"

text \<open>A payload that begins with the connection line; the Call-ID follows the body.\<close>

definition sdpFirstPayload :: bytes where
  "sdpFirstPayload = sdpBody @ ''Call-ID: a84b4c76e66710'' @ CRLF"


definition mediaIP :: bytes where
  "mediaIP = [CHR 0x0A, CHR 0x00, CHR 0x00, CHR 0x05]"



text \<open>
  Frames for \<open>Process\<close>: Ethernet, IPv4 and UDP, once with the start of an HTTP request
  as payload, which is text but not SIP, and once with the start of an RTP packet, which
  holds no line feed. The defragmenter is one that passes every packet on.
\<close>

definition noDefrag :: "unit \<Rightarrow> IPv4 \<Rightarrow> (IPv4 option \<times> bool) \<times> unit" where
  "noDefrag df ip4 = ((Some ip4, False), df)"

definition plainConfig :: Config where
  "plainConfig = \<lparr>HepFilter = [], Reasm = False\<rparr>"

definition captureTime :: CaptureInfo where
  "captureTime = \<lparr>Timestamp_Unix = 1500000000, Timestamp_Nanosecond = 250000000\<rparr>"

definition ipHeader :: IPv4 where
  "ipHeader = \<lparr>Length = 60, SrcIP = mediaIP,
                DstIP = [CHR 0x0A, CHR 0x00, CHR 0x00, CHR 0x06]\<rparr>"

definition httpPayload :: bytes where
  "httpPayload = ''GET / HTTP/1.1'' @ CRLF @ ''Host: example.com'' @ CRLF @ CRLF"

definition rtpPayload :: bytes where
  "rtpPayload = [CHR 0x80, CHR 0x00, CHR 0x00, CHR 0x01, CHR 0x00, CHR 0x00, CHR 0x00,
                 CHR 0xA0, CHR 0x12, CHR 0x34, CHR 0x56, CHR 0x78, CHR 0xD5, CHR 0xD5]"

definition udpFrame :: "bytes \<Rightarrow> packet" where
  "udpFrame payload =
     \<lparr>Layers = [LayerEthernet, LayerIPv4 ipHeader,
                 LayerUDP \<lparr>udp_SrcPort = 30000, udp_DstPort = 40000, udp_Payload = payload\<rparr>,
                 LayerOther payload],
      ApplicationLayer = Some payload\<rparr>"

section \<open>Facts about \<open>bytes.Index\<close> and \<open>strings.SplitN\<close>\<close>

lemma Index_prefix: "prefix sep s \<Longrightarrow> bytes_Index s sep = 0"
  by (cases s) auto

lemma Index_lower: "- 1 \<le> bytes_Index s sep"
  by (induction s) (auto simp: Let_def)

text \<open>A stretch that lacks the separator's first byte is skipped.\<close>

lemma Index_skip:
  "c \<notin> set a \<Longrightarrow> bytes_Index (a @ b) (c # sep) =
     (if bytes_Index b (c # sep) < 0 then - 1 else int (length a) + bytes_Index b (c # sep))"
proof (induction a)
  case Nil
  have "- 1 \<le> bytes_Index b (c # sep)" by (rule Index_lower)
  then show ?case by auto
next
  case (Cons x a)
  then show ?case by (auto simp: Let_def)
qed

lemma Index_skip_found:
  assumes "c \<notin> set a" and "prefix (c # sep) b"
  shows "bytes_Index (a @ b) (c # sep) = int (length a)"
  using Index_skip [OF assms(1), of b sep] Index_prefix [OF assms(2)] by simp

lemma Index_absent: "c \<notin> set s \<Longrightarrow> bytes_Index s (c # sep) = - 1"
  by (induction s) (auto simp: Let_def)

lemma Index_char_split:
  assumes "c \<in> set s"
  shows "\<exists>a b. s = a @ c # b \<and> c \<notin> set a \<and> bytes_Index s [c] = int (length a)"
proof -
  obtain a b where s: "s = a @ c # b" and a: "c \<notin> set a"
    using assms by (auto dest: split_list_first)
  have "bytes_Index (a @ c # b) [c] = int (length a)"
    using a by (rule Index_skip_found) simp
  with s a show ?thesis by blast
qed

lemma SplitN_step:
  assumes "bytes_Index s sep = int m"
  shows "strings_SplitN s sep (Suc (Suc n)) =
           take m s # strings_SplitN (drop (m + length sep) s) sep (Suc n)"
  by (subst strings_SplitN.simps(2)) (simp add: assms del: strings_SplitN.simps)

text \<open>Splitting at a single byte gives one more field than separators, up to the limit.\<close>

lemma SplitN_length:
  "length (strings_SplitN s [c] (Suc n)) = min (Suc n) (Suc (length (filter (\<lambda>x. x = c) s)))"
proof (induction n arbitrary: s)
  case 0
  show ?case by simp
next
  case (Suc n)
  show ?case
  proof (cases "c \<in> set s")
    case False
    then have "filter (\<lambda>x. x = c) s = []" by (auto simp: filter_empty_conv)
    moreover have "bytes_Index s [c] = - 1" using False by (rule Index_absent)
    ultimately show ?thesis by simp
  next
    case True
    then obtain a b where s: "s = a @ c # b" and a: "c \<notin> set a"
      and i: "bytes_Index s [c] = int (length a)"
      using Index_char_split by blast
    have f: "filter (\<lambda>x. x = c) a = []" using a by (auto simp: filter_empty_conv)
    have "strings_SplitN s [c] (Suc (Suc n)) = a # strings_SplitN b [c] (Suc n)"
      using SplitN_step [OF i, of n] s by (simp del: strings_SplitN.simps)
    then show ?thesis
      using Suc.IH [of b] s f by simp
  qed
qed

section \<open>Properties of \<open>cacheSDPIPPort\<close>\<close>

lemma incLast_example: "incLast ''10.0.0.530000'' = ''10.0.0.530001''"
  by code_simp

lemma sdpIP_example:
  assumes "payload = hdrs @ sdpBody @ rest"
  shows "sdpIP payload (int (length hdrs)) = Some ''10.0.0.5''"
  using assms by (simp add: sdpIP_def sdpBody_def slice_def)

lemma sdpPort_example:
  assumes "payload = hdrs @ sdpBody @ rest"
    and "bytes_Index payload ''a=rtcp:'' \<le> 0"
  shows "sdpPort payload (int (length hdrs) + 19) ''10.0.0.5'' = Some ''10.0.0.530001''"
proof -
  let ?restPort = "''m=audio 30000 RTP/AVP 0'' @ CRLF @ rest"
  have n: "nat (int (length hdrs) + 19) = length hdrs + 19" by simp
  have r: "drop (length hdrs + 19) payload = ?restPort"
    using assms(1) by (simp add: sdpBody_def)
  have i: "bytes_Index ?restPort '' RTP'' = 13" by simp
  have s: "slice ?restPort (length ''m=audio '') (nat 13) = ''30000''"
    by (simp add: slice_def)
  have "sdpPort payload (int (length hdrs) + 19) ''10.0.0.5''
          = Some (incLast (''10.0.0.5'' @ ''30000''))"
    unfolding sdpPort_def n r Let_def i s using assms(2) by simp
  then show ?thesis by (simp add: incLast_example)
qed

lemma sipCallID_header:
  assumes "bytes_Index payload ''Call-ID: '' = int p" and "0 < p"
    and "drop p payload = ''Call-ID: '' @ cid @ CRLF @ after"
    and "cid \<noteq> []" and "CR \<notin> set cid"
  shows "sipCallID payload = Some cid"
proof -
  have "CR \<notin> set (''Call-ID: '' @ cid)" using assms(5) by simp
  then have "bytes_Index ((''Call-ID: '' @ cid) @ CRLF @ after) CRLF
               = int (length (''Call-ID: '' @ cid))"
    by (rule Index_skip_found) simp
  then have i: "bytes_Index (drop p payload) CRLF = 9 + int (length cid)"
    using assms(3) by simp
  have "10 \<le> 9 + int (length cid)" using assms(4) by (cases cid) auto
  then show ?thesis
    using assms(1,2) i assms(3) by (simp add: sipCallID_def slice_def)
qed

text \<open>
  C3. A payload carries the body \<open>c=IN IP4 10.0.0.5 CRLF m=audio 30000 RTP/AVP 0 CRLF\<close>
  after its headers, the two markers of the body are the first in the payload, there is
  no \<open>a=rtcp:\<close> attribute, and a header \<open>Call-ID: cid\<close> is the first Call-ID marker.
  Then \<open>cacheSDPIPPort\<close> makes exactly one cache call: it sets key \<open>10.0.0.530001\<close>
  (the address, then the port 30000 with its last byte incremented) to the Call-ID in
  the SDP cache, with a time-to-live of 120 seconds.
\<close>

theorem cacheSDPIPPort_derives_rtcp_port:
  assumes "payload = hdrs @ sdpBody @ rest"
    and "hdrs \<noteq> []"
    and "bytes_Index payload ''c=IN IP'' = int (length hdrs)"
    and "bytes_Index payload ''m=audio '' = int (length hdrs) + 19"
    and "bytes_Index payload ''a=rtcp:'' = - 1"
    and "bytes_Index payload ''Call-ID: '' = int p" and "0 < p"
    and "drop p payload = ''Call-ID: '' @ cid @ CRLF @ after"
    and "cid \<noteq> []" and "CR \<notin> set cid"
  shows "cacheSDPIPPort d payload = fst (SDPCache_Set d ''10.0.0.530001'' cid 120)"
proof -
  have ip: "sdpIP payload (int (length hdrs)) = Some ''10.0.0.5''"
    using assms(1) by (rule sdpIP_example)
  have port: "sdpPort payload (int (length hdrs) + 19) ''10.0.0.5'' = Some ''10.0.0.530001''"
    using assms(1) assms(5) by (intro sdpPort_example) simp_all
  have cid: "sipCallID payload = Some cid"
    using assms(6-10) by (rule sipCallID_header)
  have "0 < length hdrs" using assms(2) by simp
  then show ?thesis
    unfolding cacheSDPIPPort_def by (simp add: assms(3,4) ip port cid)
qed

theorem cacheSDPIPPort_derives_rtcp_port_witness:
  "bytes_Index invitePayload ''c=IN IP'' = int (length inviteHeaders)
   \<and> bytes_Index invitePayload ''m=audio '' = int (length inviteHeaders) + 19
   \<and> bytes_Index invitePayload ''a=rtcp:'' = - 1
   \<and> bytes_Index invitePayload ''Call-ID: '' = 36
   \<and> cacheSDPIPPort exampleDecoder invitePayload
       = fst (SDPCache_Set exampleDecoder ''10.0.0.530001'' ''a84b4c76e66710'' 120)
   \<and> entries (SDPCache (cacheSDPIPPort exampleDecoder invitePayload)) ''10.0.0.530001''
       = Some (''a84b4c76e66710'', 120)
   \<and> ops (cacheSDPIPPort exampleDecoder invitePayload)
       = [OpSet SDP ''10.0.0.530001'' ''a84b4c76e66710'' 120]"
proof -
  have h1: "invitePayload = inviteHeaders @ sdpBody @ []"
    by (simp add: invitePayload_def)
  have h2: "inviteHeaders \<noteq> []" by (simp add: inviteHeaders_def)
  have h3: "bytes_Index invitePayload ''c=IN IP'' = int (length inviteHeaders)" by code_simp
  have h4: "bytes_Index invitePayload ''m=audio '' = int (length inviteHeaders) + 19"
    by code_simp
  have h5: "bytes_Index invitePayload ''a=rtcp:'' = - 1" by code_simp
  have h6: "bytes_Index invitePayload ''Call-ID: '' = int 36" by code_simp
  have h7: "drop 36 invitePayload
              = ''Call-ID: '' @ ''a84b4c76e66710'' @ CRLF @ (CRLF @ ''v=0'' @ CRLF @ sdpBody)"
    by (simp add: invitePayload_def inviteHeaders_def)
  have w: "cacheSDPIPPort exampleDecoder invitePayload
             = fst (SDPCache_Set exampleDecoder ''10.0.0.530001'' ''a84b4c76e66710'' 120)"
    using cacheSDPIPPort_derives_rtcp_port [OF h1 h2 h3 h4 h5 h6 _ h7, of exampleDecoder]
    by simp
  have e: "entries (SDPCache (fst (SDPCache_Set exampleDecoder ''10.0.0.530001''
                                     ''a84b4c76e66710'' 120))) ''10.0.0.530001''
             = Some (''a84b4c76e66710'', 120)"
    by (simp add: SDPCache_Set_def cache_Set_def exampleDecoder_def emptyCache_def)
  have o: "ops (fst (SDPCache_Set exampleDecoder ''10.0.0.530001'' ''a84b4c76e66710'' 120))
             = [OpSet SDP ''10.0.0.530001'' ''a84b4c76e66710'' 120]"
    by (simp add: SDPCache_Set_def cache_Set_def exampleDecoder_def emptyCache_def)
  show ?thesis using h3 h4 h5 h6 w e o by simp
qed

lemma sdpIP_short:
  "bytes_Index (drop (nat pos) payload) CRLF < 16 \<Longrightarrow> sdpIP payload pos = None"
  by (simp add: sdpIP_def Let_def)

lemma sdpPort_short:
  assumes "(0 < bytes_Index payload ''a=rtcp:'' \<and>
            bytes_Index (drop (nat (bytes_Index payload ''a=rtcp:'')) payload) CRLF < 11)
         \<or> (bytes_Index payload ''a=rtcp:'' \<le> 0 \<and>
            bytes_Index (drop (nat pos) payload) '' RTP'' < 12)"
  shows "sdpPort payload pos ip = None"
  using assms by (auto simp: sdpPort_def Let_def)

lemma sipCallID_short:
  assumes "(0 < bytes_Index payload ''Call-ID: '' \<and>
            bytes_Index (drop (nat (bytes_Index payload ''Call-ID: '')) payload) CRLF < 10)
         \<or> (bytes_Index payload ''Call-ID: '' \<le> 0 \<and> 0 < bytes_Index payload ''Call-ID:'' \<and>
            bytes_Index (drop (nat (bytes_Index payload ''Call-ID:'')) payload) CRLF < 9)
         \<or> (bytes_Index payload ''Call-ID: '' \<le> 0 \<and> bytes_Index payload ''Call-ID:'' \<le> 0 \<and>
            0 < bytes_Index payload ''i: '' \<and>
            bytes_Index (drop (nat (bytes_Index payload ''i: '')) payload) CRLF < 4)
         \<or> (bytes_Index payload ''Call-ID: '' \<le> 0 \<and> bytes_Index payload ''Call-ID:'' \<le> 0 \<and>
            bytes_Index payload ''i: '' \<le> 0)"
  shows "sipCallID payload = None"
  using assms by (auto simp: sipCallID_def Let_def)

lemma cacheSDPIPPort_abort:
  assumes "sdpIP payload (bytes_Index payload ''c=IN IP'') = None
         \<or> (\<forall>ip. sdpPort payload (bytes_Index payload ''m=audio '') ip = None)
         \<or> sipCallID payload = None"
  shows "cacheSDPIPPort d payload = d"
  using assms by (auto simp: cacheSDPIPPort_def Let_def split: option.splits)

text \<open>
  C4. When one of the extractions of \<open>cacheSDPIPPort\<close> fails its check, the decoder is
  returned as it was: no cache is written, and no cache call is made at all. The failing
  checks are, in the source's order: the connection line ends (CRLF) before offset 16; the
  \<open>a=rtcp:\<close> attribute, found at a positive offset, ends before offset 11; without such
  an attribute, the \<open>m=audio\<close> line has \<open> RTP\<close> before offset 12; the Call-ID marker
  that is found at a positive offset (\<open>Call-ID: \<close>, else \<open>Call-ID:\<close>, else \<open>i: \<close>)
  has its CRLF before offset 10, 9 or 4; none of the three markers is found at a positive
  offset. An offset of \<open>-1\<close> (no delimiter) fails each check.
\<close>

theorem cacheSDPIPPort_no_partial_write:
  assumes "bytes_Index (drop (nat (bytes_Index payload ''c=IN IP'')) payload) CRLF < 16
         \<or> (0 < bytes_Index payload ''a=rtcp:'' \<and>
            bytes_Index (drop (nat (bytes_Index payload ''a=rtcp:'')) payload) CRLF < 11)
         \<or> (bytes_Index payload ''a=rtcp:'' \<le> 0 \<and>
            bytes_Index (drop (nat (bytes_Index payload ''m=audio '')) payload) '' RTP'' < 12)
         \<or> (0 < bytes_Index payload ''Call-ID: '' \<and>
            bytes_Index (drop (nat (bytes_Index payload ''Call-ID: '')) payload) CRLF < 10)
         \<or> (bytes_Index payload ''Call-ID: '' \<le> 0 \<and> 0 < bytes_Index payload ''Call-ID:'' \<and>
            bytes_Index (drop (nat (bytes_Index payload ''Call-ID:'')) payload) CRLF < 9)
         \<or> (bytes_Index payload ''Call-ID: '' \<le> 0 \<and> bytes_Index payload ''Call-ID:'' \<le> 0 \<and>
            0 < bytes_Index payload ''i: '' \<and>
            bytes_Index (drop (nat (bytes_Index payload ''i: '')) payload) CRLF < 4)
         \<or> (bytes_Index payload ''Call-ID: '' \<le> 0 \<and> bytes_Index payload ''Call-ID:'' \<le> 0 \<and>
            bytes_Index payload ''i: '' \<le> 0)"
  shows "cacheSDPIPPort d payload = d"
  using assms
proof (elim disjE, goal_cases)
  case 1
  then show ?case by (intro cacheSDPIPPort_abort disjI1 sdpIP_short)
next
  case 2
  then have "\<forall>ip. sdpPort payload (bytes_Index payload ''m=audio '') ip = None"
    by (simp add: sdpPort_short)
  then show ?case by (intro cacheSDPIPPort_abort) (rule disjI2, rule disjI1)
next
  case 3
  then have "\<forall>ip. sdpPort payload (bytes_Index payload ''m=audio '') ip = None"
    by (simp add: sdpPort_short)
  then show ?case by (intro cacheSDPIPPort_abort) (rule disjI2, rule disjI1)
next
  case 4
  then have "sipCallID payload = None" by (intro sipCallID_short) simp
  then show ?case by (intro cacheSDPIPPort_abort) simp
next
  case 5
  then have "sipCallID payload = None" by (intro sipCallID_short) simp
  then show ?case by (intro cacheSDPIPPort_abort) simp
next
  case 6
  then have "sipCallID payload = None" by (intro sipCallID_short) simp
  then show ?case by (intro cacheSDPIPPort_abort) simp
next
  case 7
  then have "sipCallID payload = None" by (intro sipCallID_short) simp
  then show ?case by (intro cacheSDPIPPort_abort) simp
qed

text \<open>
  The witness is the specification's case: the connection line is too short, the port and
  the Call-ID are present and well-formed.
\<close>

theorem cacheSDPIPPort_no_partial_write_witness:
  "bytes_Index (drop (nat (bytes_Index shortIPPayload ''c=IN IP'')) shortIPPayload) CRLF < 16
   \<and> sipCallID shortIPPayload = Some ''a84b4c76e66710''
   \<and> sdpPort shortIPPayload (bytes_Index shortIPPayload ''m=audio '') ''1.1.1''
       = Some ''1.1.130001''
   \<and> cacheSDPIPPort exampleDecoder shortIPPayload = exampleDecoder"
proof -
  have h: "bytes_Index (drop (nat (bytes_Index shortIPPayload ''c=IN IP'')) shortIPPayload) CRLF
             < 16"
    by code_simp
  have c: "sipCallID shortIPPayload = Some ''a84b4c76e66710''" by code_simp
  have p: "sdpPort shortIPPayload (bytes_Index shortIPPayload ''m=audio '') ''1.1.1''
             = Some ''1.1.130001''"
    by code_simp
  have "cacheSDPIPPort exampleDecoder shortIPPayload = exampleDecoder"
    using cacheSDPIPPort_no_partial_write [of shortIPPayload exampleDecoder] h by blast
  with h c p show ?thesis by simp
qed

text \<open>
  C10. A payload that begins with \<open>c=IN IP\<close> or with \<open>m=audio \<close> has that marker at
  offset 0, which the guard \<open>posSDPIP > 0 && posSDPPort > 0\<close> refuses: the decoder is
  returned as it was, whatever else the payload holds. The Call-ID search is as strict: a
  payload that begins with \<open>Call-ID: \<close> and has no \<open>i: \<close> at a positive offset is left
  without a Call-ID, and nothing is written.
\<close>

theorem cacheSDPIPPort_marker_at_offset_0:
  assumes "prefix ''c=IN IP'' payload \<or> prefix ''m=audio '' payload
         \<or> (prefix ''Call-ID: '' payload \<and> bytes_Index payload ''i: '' \<le> 0)"
  shows "cacheSDPIPPort d payload = d"
  using assms
proof (elim disjE conjE, goal_cases)
  case 1
  then have "bytes_Index payload ''c=IN IP'' = 0" by (rule Index_prefix)
  then show ?case by (simp add: cacheSDPIPPort_def)
next
  case 2
  then have "bytes_Index payload ''m=audio '' = 0" by (rule Index_prefix)
  then show ?case by (simp add: cacheSDPIPPort_def)
next
  case 3
  have "prefix ''Call-ID:'' payload"
    using 3(1) by (auto simp: prefix_def)
  then have "bytes_Index payload ''Call-ID:'' = 0" by (rule Index_prefix)
  moreover have "bytes_Index payload ''Call-ID: '' = 0" using 3(1) by (rule Index_prefix)
  ultimately have "sipCallID payload = None"
    using 3(2) by (intro sipCallID_short) simp
  then show ?case by (intro cacheSDPIPPort_abort) simp
qed

text \<open>
  The witness begins with the connection line and is well-formed otherwise: with one
  byte in front of it the same payload is written to the cache.
\<close>

theorem cacheSDPIPPort_marker_at_offset_0_witness:
  "prefix ''c=IN IP'' sdpFirstPayload
   \<and> cacheSDPIPPort exampleDecoder sdpFirstPayload = exampleDecoder
   \<and> ops (cacheSDPIPPort exampleDecoder (LF # sdpFirstPayload))
       = [OpSet SDP ''10.0.0.530001'' ''a84b4c76e66710'' 120]"
proof -
  have h: "prefix ''c=IN IP'' sdpFirstPayload"
    by (simp add: sdpFirstPayload_def sdpBody_def)
  have "cacheSDPIPPort exampleDecoder sdpFirstPayload = exampleDecoder"
    using cacheSDPIPPort_marker_at_offset_0 [of sdpFirstPayload exampleDecoder] h by blast
  moreover have "ops (cacheSDPIPPort exampleDecoder (LF # sdpFirstPayload))
                   = [OpSet SDP ''10.0.0.530001'' ''a84b4c76e66710'' 120]"
    by code_simp
  ultimately show ?thesis using h by simp
qed

section \<open>Properties of \<open>correlateLOG\<close>\<close>










section \<open>Properties of \<open>ParseFirstLine\<close>\<close>

text \<open>
  C7, as the claim states it, fails. The source cuts the line at single spaces
  (\<open>strings.SplitN(line, " ", 3)\<close>), so two spaces in a row make an empty field that
  counts: the line \<open>INVITE  SIP/2.0\<close> has two whitespace-separated tokens and three
  fields, and it parses without an error, as an INVITE request of version 2.0.
\<close>

theorem ParseFirstLine_two_tokens_counterexample:
  "length (whitespaceTokens ''INVITE  SIP/2.0'') = 2
   \<and> strings_SplitN ''INVITE  SIP/2.0'' '' '' 3 = [''INVITE'', [], ''SIP/2.0'']
   \<and> snd (ParseFirstLine NewSIP ''INVITE  SIP/2.0'') = None
   \<and> Method (fst (ParseFirstLine NewSIP ''INVITE  SIP/2.0'')) = SIPMethodInvite
   \<and> Version (fst (ParseFirstLine NewSIP ''INVITE  SIP/2.0'')) = SIPVersion2"
  by code_simp

text \<open>
  C7, amended. For every start line with fewer than two space bytes, that is one that
  \<open>strings.SplitN(line, " ", 3)\<close> cuts into fewer than 3 fields, \<open>ParseFirstLine\<close> fails
  with the error \<open>invalid first SIP line\<close>, and the SIP message is left as it was:
  version, method, response code and response status are not assigned.
\<close>

theorem ParseFirstLine_fewer_than_two_spaces:
  assumes "length (filter (\<lambda>c. c = CHR '' '') firstLine) < 2"
  shows "ParseFirstLine s firstLine = (s, Some (InvalidFirstSIPLine firstLine))"
proof -
  have "length (strings_SplitN firstLine '' '' 3) < 3"
    using assms SplitN_length [of firstLine "CHR '' ''" 2] by (simp add: numeral_3_eq_3)
  then show ?thesis by (simp add: ParseFirstLine_def)
qed

theorem ParseFirstLine_fewer_than_two_spaces_witness:
  "length (filter (\<lambda>c. c = CHR '' '') ''OPTIONS sip:bob@example.com'') < 2
   \<and> ParseFirstLine NewSIP ''OPTIONS sip:bob@example.com''
       = (NewSIP, Some (InvalidFirstSIPLine ''OPTIONS sip:bob@example.com''))"
proof -
  have h: "length (filter (\<lambda>c. c = CHR '' '') ''OPTIONS sip:bob@example.com'') < 2"
    by simp
  show ?thesis
    using ParseFirstLine_fewer_than_two_spaces [OF h, of NewSIP] h by simp
qed

text \<open>With two space bytes or more the line has three fields, and this error is not raised.\<close>

lemma ParseFirstLine_two_spaces:
  assumes "2 \<le> length (filter (\<lambda>c. c = CHR '' '') firstLine)"
  shows "snd (ParseFirstLine s firstLine) \<noteq> Some (InvalidFirstSIPLine firstLine)"
proof -
  have "length (strings_SplitN firstLine '' '' 3) = 3"
    using assms SplitN_length [of firstLine "CHR '' ''" 2] by (simp add: numeral_3_eq_3)
  then show ?thesis
    by (auto simp: ParseFirstLine_def Let_def GetSIPVersion_def GetSIPMethod_def strconv_Atoi_def
             split: prod.splits if_splits)
qed

subsection \<open>Request lines\<close>

lemma upperByte_space: "upperByte (CHR '' '') = CHR '' ''"
  by code_simp

lemma ToUpper_space: "CHR '' '' \<in> set s \<Longrightarrow> CHR '' '' \<in> set (strings_ToUpper s)"
  unfolding strings_ToUpper_def using upperByte_space by (metis image_eqI set_map)

lemma upperByte_SIP:
  "upperByte (CHR ''S'') = CHR ''S''" "upperByte (CHR ''I'') = CHR ''I''"
  "upperByte (CHR ''P'') = CHR ''P''"
  by code_simp+

lemma ToUpper_SIP: "prefix ''SIP'' s \<Longrightarrow> prefix ''SIP'' (strings_ToUpper s)"
  by (auto simp: prefix_def strings_ToUpper_def upperByte_SIP)

lemma GetSIPMethod_String:
  assumes "strings_ToUpper method \<in> {''INVITE'', ''ACK'', ''BYE'', ''CANCEL'', ''OPTIONS'',
     ''REGISTER'', ''PRACK'', ''SUBSCRIBE'', ''NOTIFY'', ''PUBLISH'', ''INFO'', ''REFER'',
     ''MESSAGE'', ''UPDATE'', ''PING''}"
  shows "snd (GetSIPMethod method) = None
         \<and> SIPMethod_String (fst (GetSIPMethod method)) = strings_ToUpper method"
  using assms unfolding GetSIPMethod_def Let_def
  by (elim insertE emptyE)
     (simp_all add: SIPMethod_String_def SIPMethodInvite_def SIPMethodAck_def
      SIPMethodBye_def SIPMethodCancel_def SIPMethodOptions_def SIPMethodRegister_def
      SIPMethodPrack_def SIPMethodSubscribe_def SIPMethodNotify_def SIPMethodPublish_def
      SIPMethodInfo_def SIPMethodRefer_def SIPMethodMessage_def SIPMethodUpdate_def
      SIPMethodPing_def)

lemma GetSIPVersion_String:
  assumes "strings_ToUpper version \<in> {''SIP/1.0'', ''SIP/2.0''}"
  shows "snd (GetSIPVersion version) = None
         \<and> SIPVersion_String (fst (GetSIPVersion version)) = strings_ToUpper version"
  using assms
  by (auto simp: GetSIPVersion_def SIPVersion_String_def SIPVersion1_def SIPVersion2_def)

text \<open>A method name, in any letter case, holds no space and does not begin with \<open>SIP\<close>.\<close>

lemma method_no_space:
  assumes "strings_ToUpper method \<in> {''INVITE'', ''ACK'', ''BYE'', ''CANCEL'', ''OPTIONS'',
     ''REGISTER'', ''PRACK'', ''SUBSCRIBE'', ''NOTIFY'', ''PUBLISH'', ''INFO'', ''REFER'',
     ''MESSAGE'', ''UPDATE'', ''PING''}"
  shows "CHR '' '' \<notin> set method" and "\<not> prefix ''SIP'' method"
proof -
  show "CHR '' '' \<notin> set method"
  proof
    assume "CHR '' '' \<in> set method"
    then have "CHR '' '' \<in> set (strings_ToUpper method)" by (rule ToUpper_space)
    with assms show False by auto
  qed
  show "\<not> prefix ''SIP'' method"
  proof
    assume "prefix ''SIP'' method"
    then have "prefix ''SIP'' (strings_ToUpper method)" by (rule ToUpper_SIP)
    with assms show False by auto
  qed
qed

lemma SplitN_request_line:
  assumes "CHR '' '' \<notin> set method" and "CHR '' '' \<notin> set uri"
  shows "strings_SplitN (method @ '' '' @ uri @ '' '' @ version) '' '' 3 = [method, uri, version]"
proof -
  have i1: "bytes_Index (method @ '' '' @ uri @ '' '' @ version) '' '' = int (length method)"
    using assms(1) by (rule Index_skip_found) simp
  have i2: "bytes_Index (uri @ '' '' @ version) '' '' = int (length uri)"
    using assms(2) by (rule Index_skip_found) simp
  have "strings_SplitN (method @ '' '' @ uri @ '' '' @ version) '' '' (Suc (Suc (Suc 0)))
          = method # strings_SplitN (uri @ '' '' @ version) '' '' (Suc (Suc 0))"
    using SplitN_step [OF i1, of "Suc 0"] by (simp del: strings_SplitN.simps)
  also have "strings_SplitN (uri @ '' '' @ version) '' '' (Suc (Suc 0))
          = uri # strings_SplitN version '' '' (Suc 0)"
    using SplitN_step [OF i2, of 0] by (simp del: strings_SplitN.simps)
  finally show ?thesis by (simp add: numeral_3_eq_3)
qed

text \<open>
  C8. A request line \<open>METHOD uri VERSION\<close>: the method is one of the 15 names and the
  version is \<open>SIP/1.0\<close> or \<open>SIP/2.0\<close>, each in any letter case, and the URI holds no
  space. \<open>ParseFirstLine\<close> returns no error, and the \<open>String\<close> functions give back the
  method token in upper case and the version token in upper case, which is the canonical
  version text.
\<close>

theorem ParseFirstLine_request_roundtrip:
  assumes "strings_ToUpper method \<in> {''INVITE'', ''ACK'', ''BYE'', ''CANCEL'', ''OPTIONS'',
     ''REGISTER'', ''PRACK'', ''SUBSCRIBE'', ''NOTIFY'', ''PUBLISH'', ''INFO'', ''REFER'',
     ''MESSAGE'', ''UPDATE'', ''PING''}"
    and "strings_ToUpper version \<in> {''SIP/1.0'', ''SIP/2.0''}"
    and "CHR '' '' \<notin> set uri"
  shows "snd (ParseFirstLine s (method @ '' '' @ uri @ '' '' @ version)) = None
         \<and> SIPMethod_String (Method (fst (ParseFirstLine s
               (method @ '' '' @ uri @ '' '' @ version)))) = strings_ToUpper method
         \<and> SIPVersion_String (Version (fst (ParseFirstLine s
               (method @ '' '' @ uri @ '' '' @ version)))) = strings_ToUpper version"
proof -
  have sp: "strings_SplitN (method @ '' '' @ uri @ '' '' @ version) '' '' 3
              = [method, uri, version]"
    using method_no_space(1) [OF assms(1)] assms(3) by (rule SplitN_request_line)
  have np: "\<not> strings_HasPrefix method ''SIP''"
    using method_no_space(2) [OF assms(1)] by (simp add: strings_HasPrefix_def)
  obtain m where m: "GetSIPMethod method = (m, None)"
      "SIPMethod_String m = strings_ToUpper method"
    using GetSIPMethod_String [OF assms(1)] by (cases "GetSIPMethod method") auto
  obtain v where v: "GetSIPVersion version = (v, None)"
      "SIPVersion_String v = strings_ToUpper version"
    using GetSIPVersion_String [OF assms(2)] by (cases "GetSIPVersion version") auto
  have "ParseFirstLine s (method @ '' '' @ uri @ '' '' @ version)
          = (s\<lparr>Method := m, Version := v\<rparr>, None)"
    unfolding ParseFirstLine_def sp using np m(1) v(1) by (simp add: numeral_2_eq_2)
  then show ?thesis using m(2) v(2) by simp
qed

theorem ParseFirstLine_request_roundtrip_witness:
  "strings_ToUpper ''invite'' = ''INVITE'' \<and> strings_ToUpper ''sip/2.0'' = ''SIP/2.0''
   \<and> snd (ParseFirstLine NewSIP ''invite sip:bob@example.com sip/2.0'') = None
   \<and> SIPMethod_String (Method (fst (ParseFirstLine NewSIP
         ''invite sip:bob@example.com sip/2.0''))) = ''INVITE''
   \<and> SIPVersion_String (Version (fst (ParseFirstLine NewSIP
         ''invite sip:bob@example.com sip/2.0''))) = ''SIP/2.0''"
proof -
  have u1: "strings_ToUpper ''invite'' = ''INVITE''" by code_simp
  have u2: "strings_ToUpper ''sip/2.0'' = ''SIP/2.0''" by code_simp
  show ?thesis
    using ParseFirstLine_request_roundtrip [of "''invite''" "''sip/2.0''"
        "''sip:bob@example.com''" NewSIP] u1 u2
    by simp
qed

section \<open>Properties of \<open>correlateRTCP\<close>\<close>








section \<open>Properties of \<open>correlateNG\<close>\<close>

text \<open>
  C9. \<open>correlateNG\<close> is not total: when the decoded dictionary maps \<open>call-id\<close> to a
  value that is not a byte string, here an integer, the type assertion panics.
\<close>

theorem correlateNG_call_id_not_bytes_panics:
  "correlateNG (\<lambda>p. Inr (''1_abc'', NGDict [(''call-id'', NGInt 5)])) (\<lambda>v. Inr ''5'')
     exampleDecoder ''1_abc d7:call-idi5ee'' = Inl TypeAssertion"
  by (simp add: correlateNG_def)

text \<open>With a byte string for \<open>call-id\<close> the cookie is bound and the result is no match.\<close>

lemma correlateNG_call_id_bytes:
  "correlateNG (\<lambda>p. Inr (cookie, NGDict [(''call-id'', NGBytes callid)])) json_Marshal d payload
     = Inr (fst (SIPCache_Set d cookie callid 10), noMatch)"
  by (simp add: correlateNG_def split: prod.splits)

section \<open>Properties of \<open>Process\<close>\<close>

lemma sipHeaders_fail: "isl (decodeSIP data) \<Longrightarrow> sipHeaders pkt data = Inr None"
  by (cases "decodeSIP data") (simp_all add: sipHeaders_def NewPacket_SIP_def)

lemma sipHeaders_ok:
  "\<not> isl (decodeSIP data) \<Longrightarrow>
   sipHeaders pkt data = Inr (Some (pkt\<lparr>SipHeader := Some (Headers (projr (decodeSIP data)))\<rparr>))"
  by (cases "decodeSIP data") (simp_all add: sipHeaders_def NewPacket_SIP_def)

text \<open>When no transport layer of the list decodes as SIP, the loop returns no packet.\<close>

lemma processLayers_no_packet:
  assumes "\<forall>l \<in> set ls. (\<forall>u. l = LayerUDP u \<longrightarrow> isl (decodeSIP (udp_Payload u)))
                       \<and> (\<forall>t. l = LayerTCP t \<longrightarrow> isl (decodeSIP (tcp_Payload t)))"
  shows "processLayers defrag cfg all df pkt ls \<noteq> Inr (Some r)"
  using assms
proof (induction ls arbitrary: df pkt)
  case Nil
  show ?case by simp
next
  case (Cons l ls)
  then have rest: "\<And>df pkt. processLayers defrag cfg all df pkt ls \<noteq> Inr (Some r)"
    by simp
  show ?case
  proof (cases l)
    case LayerEthernet
    then show ?thesis using rest by simp
  next
    case (LayerIPv4 ip)
    then show ?thesis using rest
      by (auto simp: Let_def split: option.splits prod.splits sum.splits)
  next
    case (LayerUDP u)
    then have "sipHeaders p (udp_Payload u) = Inr None" for p
      using Cons.prems by (simp add: sipHeaders_fail)
    then show ?thesis using rest LayerUDP
      by (auto simp: Let_def split: option.splits)
  next
    case (LayerTCP t)
    then have "sipHeaders p (tcp_Payload t) = Inr None" for p
      using Cons.prems by (simp add: sipHeaders_fail)
    then show ?thesis using rest LayerTCP
      by (auto simp: Let_def split: option.splits)
  next
    case (LayerOther b)
    then show ?thesis using rest by simp
  qed
qed

text \<open>Without reassembly and with four-byte addresses the loop does not panic either.\<close>

lemma processLayers_null:
  assumes "\<forall>l \<in> set ls. (\<forall>u. l = LayerUDP u \<longrightarrow> isl (decodeSIP (udp_Payload u)))
                       \<and> (\<forall>t. l = LayerTCP t \<longrightarrow> isl (decodeSIP (tcp_Payload t)))"
    and "\<not> Reasm cfg"
    and "\<forall>ip. Layer_IPv4 all = Some ip \<longrightarrow> length (SrcIP ip) = 4 \<and> length (DstIP ip) = 4"
  shows "processLayers defrag cfg all df pkt ls = Inr None"
  using assms(1)
proof (induction ls arbitrary: df pkt)
  case Nil
  show ?case by simp
next
  case (Cons l ls)
  then have rest: "\<And>df pkt. processLayers defrag cfg all df pkt ls = Inr None"
    by simp
  show ?case
  proof (cases l)
    case LayerEthernet
    then show ?thesis using rest by simp
  next
    case (LayerIPv4 ip)
    then show ?thesis using rest assms(2,3)
      by (auto simp: Let_def ip2int_def split: option.splits)
  next
    case (LayerUDP u)
    then have "sipHeaders p (udp_Payload u) = Inr None" for p
      using Cons.prems by (simp add: sipHeaders_fail)
    then show ?thesis using rest LayerUDP
      by (auto simp: Let_def split: option.splits)
  next
    case (LayerTCP t)
    then have "sipHeaders p (tcp_Payload t) = Inr None" for p
      using Cons.prems by (simp add: sipHeaders_fail)
    then show ?thesis using rest LayerTCP
      by (auto simp: Let_def split: option.splits)
  next
    case (LayerOther b)
    then show ?thesis using rest by simp
  qed
qed

lemma Process_no_packet:
  assumes "\<forall>l \<in> set (Layers p). (\<forall>u. l = LayerUDP u \<longrightarrow> isl (decodeSIP (udp_Payload u)))
                       \<and> (\<forall>t. l = LayerTCP t \<longrightarrow> isl (decodeSIP (tcp_Payload t)))"
  shows "Process defrag cfg d df p ci \<noteq> Inr (Some r)"
  using processLayers_no_packet [OF assms, of defrag cfg "Layers p" df _ r]
  by (auto simp: Process_def Let_def)

lemma Process_null:
  assumes "\<forall>l \<in> set (Layers p). (\<forall>u. l = LayerUDP u \<longrightarrow> isl (decodeSIP (udp_Payload u)))
                       \<and> (\<forall>t. l = LayerTCP t \<longrightarrow> isl (decodeSIP (tcp_Payload t)))"
    and "\<not> Reasm cfg"
    and "\<forall>ip. Layer_IPv4 (Layers p) = Some ip \<longrightarrow> length (SrcIP ip) = 4 \<and> length (DstIP ip) = 4"
  shows "Process defrag cfg d df p ci = Inr None"
  using processLayers_null [OF assms] by (auto simp: Process_def Let_def)

lemma Process_udp_frame:
  assumes "Layers p = [LayerEthernet, LayerIPv4 ip, LayerUDP u] @ rest"
    and "\<not> Reasm cfg" and "HepFilter cfg = []"
    and "length (SrcIP ip) = 4" and "length (DstIP ip) = 4"
    and "\<not> isl (decodeSIP (udp_Payload u))"
  shows "Process defrag cfg d df p ci =
           Inr (Some \<lparr>pkt_Host = Host d,
                       Tsec = word_of_int (Timestamp_Unix ci),
                       Tmsec = word_of_int (Timestamp_Nanosecond ci div 1000),
                       Srcip = BigEndian_Uint32 (SrcIP ip), Dstip = BigEndian_Uint32 (DstIP ip),
                       Sport = udp_SrcPort u, Dport = udp_DstPort u,
                       Payload = Some (udp_Payload u),
                       SipHeader = Some (Headers (projr (decodeSIP (udp_Payload u))))\<rparr>)"
  using assms
  by (simp add: Process_def ip2int_def sipHeaders_ok split: option.splits)

lemma Process_tcp_frame:
  assumes "Layers p = [LayerEthernet, LayerIPv4 ip, LayerTCP t] @ rest"
    and "\<not> Reasm cfg" and "HepFilter cfg = []"
    and "length (SrcIP ip) = 4" and "length (DstIP ip) = 4"
    and "\<not> isl (decodeSIP (tcp_Payload t))"
  shows "Process defrag cfg d df p ci =
           Inr (Some \<lparr>pkt_Host = Host d,
                       Tsec = word_of_int (Timestamp_Unix ci),
                       Tmsec = word_of_int (Timestamp_Nanosecond ci div 1000),
                       Srcip = BigEndian_Uint32 (SrcIP ip), Dstip = BigEndian_Uint32 (DstIP ip),
                       Sport = tcp_SrcPort t, Dport = tcp_DstPort t,
                       Payload = Some (tcp_Payload t),
                       SipHeader = Some (Headers (projr (decodeSIP (tcp_Payload t))))\<rparr>)"
  using assms
  by (simp add: Process_def ip2int_def sipHeaders_ok split: option.splits)

lemma decodeSIP_http:
  "isl (decodeSIP httpPayload)"
  "snd (DecodeFromBytes NewSIP httpPayload) = Some (InvalidSIPMethod ''GET'')"
  by code_simp+

lemma decodeSIP_rtp: "decodeSIP rtpPayload = Inr NewSIP"
  by (simp add: decodeSIP_def DecodeFromBytes_def rtpPayload_def bytes_Trim_def ReadBytes_def)

text \<open>
  C1, as the claim states it, fails. The payload of the UDP layer is text that is not SIP:
  its first line is cut into three fields and \<open>GET\<close> is no SIP method, so the decoder
  returns an error and the inner packet has no SIP layer. The type assertion
  \<open>p.Layers()[0].(*SIP)\<close> fails, the \<open>break\<close> leaves the \<open>switch\<close>, the loop runs out
  and \<open>Process\<close> returns nil.
\<close>

theorem Process_not_sip_counterexample:
  "snd (DecodeFromBytes NewSIP httpPayload) = Some (InvalidSIPMethod ''GET'')
   \<and> isl (decodeSIP httpPayload)
   \<and> Process noDefrag plainConfig exampleDecoder () (udpFrame httpPayload) captureTime = Inr None"
proof -
  have "isl (decodeSIP httpPayload)" by (simp add: decodeSIP_http)
  then have "Process noDefrag plainConfig exampleDecoder () (udpFrame httpPayload) captureTime
               = Inr None"
    by (intro Process_null) (simp_all add: udpFrame_def plainConfig_def ipHeader_def mediaIP_def)
  then show ?thesis by (simp add: decodeSIP_http)
qed

text \<open>
  C1, amended. When the SIP decoder fails on the payload of every UDP and TCP layer of
  the frame, \<open>Process\<close> returns no NormalizedPacket; without reassembly, and with
  four-byte addresses in the IPv4 layer, it returns nil. A NormalizedPacket needs the
  decoder to succeed: for an Ethernet, IPv4 and UDP or TCP frame whose transport payload
  the decoder accepts, without reassembly and without a filter, \<open>Process\<close> returns the
  packet with the host, the capture time, both addresses, both ports, the payload and the
  decoded headers. The headers are empty when the payload holds none, as for a payload
  without a line feed.
\<close>

theorem Process_sip_decoding:
  "((\<forall>l \<in> set (Layers p). (\<forall>u. l = LayerUDP u \<longrightarrow> isl (decodeSIP (udp_Payload u)))
                           \<and> (\<forall>t. l = LayerTCP t \<longrightarrow> isl (decodeSIP (tcp_Payload t))))
      \<longrightarrow> (\<forall>r. Process defrag cfg d df p ci \<noteq> Inr (Some r))
          \<and> (\<not> Reasm cfg
              \<and> (\<forall>ip. Layer_IPv4 (Layers p) = Some ip
                        \<longrightarrow> length (SrcIP ip) = 4 \<and> length (DstIP ip) = 4)
              \<longrightarrow> Process defrag cfg d df p ci = Inr None))
   \<and> (Layers p = [LayerEthernet, LayerIPv4 ip, LayerUDP u] @ rest
      \<and> \<not> Reasm cfg \<and> HepFilter cfg = [] \<and> length (SrcIP ip) = 4 \<and> length (DstIP ip) = 4
      \<and> \<not> isl (decodeSIP (udp_Payload u))
      \<longrightarrow> Process defrag cfg d df p ci =
            Inr (Some \<lparr>pkt_Host = Host d,
                        Tsec = word_of_int (Timestamp_Unix ci),
                        Tmsec = word_of_int (Timestamp_Nanosecond ci div 1000),
                        Srcip = BigEndian_Uint32 (SrcIP ip), Dstip = BigEndian_Uint32 (DstIP ip),
                        Sport = udp_SrcPort u, Dport = udp_DstPort u,
                        Payload = Some (udp_Payload u),
                        SipHeader = Some (Headers (projr (decodeSIP (udp_Payload u))))\<rparr>))
   \<and> (Layers p = [LayerEthernet, LayerIPv4 ip, LayerTCP t] @ rest
      \<and> \<not> Reasm cfg \<and> HepFilter cfg = [] \<and> length (SrcIP ip) = 4 \<and> length (DstIP ip) = 4
      \<and> \<not> isl (decodeSIP (tcp_Payload t))
      \<longrightarrow> Process defrag cfg d df p ci =
            Inr (Some \<lparr>pkt_Host = Host d,
                        Tsec = word_of_int (Timestamp_Unix ci),
                        Tmsec = word_of_int (Timestamp_Nanosecond ci div 1000),
                        Srcip = BigEndian_Uint32 (SrcIP ip), Dstip = BigEndian_Uint32 (DstIP ip),
                        Sport = tcp_SrcPort t, Dport = tcp_DstPort t,
                        Payload = Some (tcp_Payload t),
                        SipHeader = Some (Headers (projr (decodeSIP (tcp_Payload t))))\<rparr>))"
proof (intro conjI impI allI)
  fix r
  assume "\<forall>l \<in> set (Layers p). (\<forall>u. l = LayerUDP u \<longrightarrow> isl (decodeSIP (udp_Payload u)))
                           \<and> (\<forall>t. l = LayerTCP t \<longrightarrow> isl (decodeSIP (tcp_Payload t)))"
  then show "Process defrag cfg d df p ci \<noteq> Inr (Some r)" by (rule Process_no_packet)
next
  assume a: "\<forall>l \<in> set (Layers p). (\<forall>u. l = LayerUDP u \<longrightarrow> isl (decodeSIP (udp_Payload u)))
                           \<and> (\<forall>t. l = LayerTCP t \<longrightarrow> isl (decodeSIP (tcp_Payload t)))"
    and b: "\<not> Reasm cfg \<and> (\<forall>ip. Layer_IPv4 (Layers p) = Some ip
                        \<longrightarrow> length (SrcIP ip) = 4 \<and> length (DstIP ip) = 4)"
  show "Process defrag cfg d df p ci = Inr None"
    using a b by (intro Process_null) simp_all
next
  assume "Layers p = [LayerEthernet, LayerIPv4 ip, LayerUDP u] @ rest
      \<and> \<not> Reasm cfg \<and> HepFilter cfg = [] \<and> length (SrcIP ip) = 4 \<and> length (DstIP ip) = 4
      \<and> \<not> isl (decodeSIP (udp_Payload u))"
  then show "Process defrag cfg d df p ci =
            Inr (Some \<lparr>pkt_Host = Host d,
                        Tsec = word_of_int (Timestamp_Unix ci),
                        Tmsec = word_of_int (Timestamp_Nanosecond ci div 1000),
                        Srcip = BigEndian_Uint32 (SrcIP ip), Dstip = BigEndian_Uint32 (DstIP ip),
                        Sport = udp_SrcPort u, Dport = udp_DstPort u,
                        Payload = Some (udp_Payload u),
                        SipHeader = Some (Headers (projr (decodeSIP (udp_Payload u))))\<rparr>)"
    by (intro Process_udp_frame) simp_all
next
  assume "Layers p = [LayerEthernet, LayerIPv4 ip, LayerTCP t] @ rest
      \<and> \<not> Reasm cfg \<and> HepFilter cfg = [] \<and> length (SrcIP ip) = 4 \<and> length (DstIP ip) = 4
      \<and> \<not> isl (decodeSIP (tcp_Payload t))"
  then show "Process defrag cfg d df p ci =
            Inr (Some \<lparr>pkt_Host = Host d,
                        Tsec = word_of_int (Timestamp_Unix ci),
                        Tmsec = word_of_int (Timestamp_Nanosecond ci div 1000),
                        Srcip = BigEndian_Uint32 (SrcIP ip), Dstip = BigEndian_Uint32 (DstIP ip),
                        Sport = tcp_SrcPort t, Dport = tcp_DstPort t,
                        Payload = Some (tcp_Payload t),
                        SipHeader = Some (Headers (projr (decodeSIP (tcp_Payload t))))\<rparr>)"
    by (intro Process_tcp_frame) simp_all
qed

text \<open>
  The witness: the HTTP frame gives nil; the RTP frame, whose payload holds no line feed,
  decodes to a SIP layer without headers and gives the packet.
\<close>

theorem Process_sip_decoding_witness:
  "isl (decodeSIP httpPayload)
   \<and> Process noDefrag plainConfig exampleDecoder () (udpFrame httpPayload) captureTime = Inr None
   \<and> \<not> isl (decodeSIP rtpPayload)
   \<and> Process noDefrag plainConfig exampleDecoder () (udpFrame rtpPayload) captureTime =
       Inr (Some \<lparr>pkt_Host = ''probe'', Tsec = 1500000000, Tmsec = 250000,
                   Srcip = 167772165, Dstip = 167772166, Sport = 30000, Dport = 40000,
                   Payload = Some rtpPayload, SipHeader = Some Map.empty\<rparr>)"
proof -
  have h: "isl (decodeSIP httpPayload)" by (simp add: decodeSIP_http)
  have r: "\<not> isl (decodeSIP rtpPayload)" by (simp add: decodeSIP_rtp)
  have a: "Process noDefrag plainConfig exampleDecoder () (udpFrame httpPayload) captureTime
             = Inr None"
    using Process_sip_decoding [of "udpFrame httpPayload" noDefrag plainConfig exampleDecoder
        "()" captureTime] h
    by (simp add: udpFrame_def plainConfig_def ipHeader_def mediaIP_def)
  have b: "Process noDefrag plainConfig exampleDecoder () (udpFrame rtpPayload) captureTime =
       Inr (Some \<lparr>pkt_Host = ''probe'', Tsec = 1500000000, Tmsec = 250000,
                   Srcip = 167772165, Dstip = 167772166, Sport = 30000, Dport = 40000,
                   Payload = Some rtpPayload, SipHeader = Some Map.empty\<rparr>)"
    using Process_sip_decoding [of "udpFrame rtpPayload" noDefrag plainConfig exampleDecoder
        "()" captureTime ipHeader
        "\<lparr>udp_SrcPort = 30000, udp_DstPort = 40000, udp_Payload = rtpPayload\<rparr>"
        "[LayerOther rtpPayload]"] r
    by (simp add: udpFrame_def plainConfig_def ipHeader_def mediaIP_def exampleDecoder_def
        captureTime_def decodeSIP_rtp NewSIP_def BigEndian_Uint32_def)
  show ?thesis using h r a b by simp
qed

end
